theory Spec2Isabelle
  imports Main "HOL-Library.Word"
begin

section \<open>Firmware update over the mailbox: board/labx/revolver/firmware-update.c\<close>

text \<open>
  A shallow embedding of the firmware-update control path of the bootloader. The C
  file keeps its state in globals; here they are the fields of one record that every
  function takes and returns. Calls that leave the module (console, mailbox, shell,
  configuration port, delays) are appended to a trace, in program order.
\<close>

subsection \<open>Types of the C file\<close>

type_synonym uint8_t = "8 word"
type_synonym u16 = "16 word"
type_synonym uint32_t = "32 word"
type_synonym string_t = string

text \<open>The error codes of \<^verbatim>\<open>AvbDefs__ErrorCode\<close> that the file uses.\<close>

datatype AvbDefs__ErrorCode =
    e_EC_SUCCESS
  | e_EC_UPDATE_ALREADY_IN_PROGRESS
  | e_EC_UPDATE_NOT_IN_PROGRESS
  | e_EC_NOT_EXECUTED
  | e_EC_INVALID_SERVICE_CODE

datatype FirmwareUpdate__FirmwareUpdateExecutionState =
    UPDATE_SUCCESS
  | UPDATE_CORRUPT_IMAGE
  | UPDATE_NOT_EXECUTED

datatype FirmwareUpdate__CodeImageType = e_CODE_IMAGE_BOOT | e_CODE_IMAGE_MAIN

text \<open>
  \<^verbatim>\<open>FirmwareUpdate__FwData\<close> is the IDL type \<^verbatim>\<open>sequence<uint8_t>\<close>: the bytes
  \<^verbatim>\<open>m_data\<close> and their count \<^verbatim>\<open>m_size\<close>, a 32-bit field.
\<close>

type_synonym FirmwareUpdate__FwData = "uint8_t list"

definition m_size :: "FirmwareUpdate__FwData \<Rightarrow> uint32_t" where
  "m_size d = word_of_nat (length d)"

text \<open>
  \<^verbatim>\<open>FirmwareUpdate__GenericEvent\<close>: the event code and the data sequence, of which the
  file writes element 0 and the size.
\<close>

record FirmwareUpdate__GenericEvent =
  eventCode :: uint32_t
  data_m_data0 :: FirmwareUpdate__FirmwareUpdateExecutionState
  data_m_size :: uint32_t

definition NULL_EVENT :: uint32_t where
  "NULL_EVENT = 0x00000000"

definition FIRMWARE_UPDATE_EVENT :: uint32_t where
  "FIRMWARE_UPDATE_EVENT = 0x846C034D"

definition GENERAL5_MAGIC :: u16 where
  "GENERAL5_MAGIC = 0x0ABCD"

definition FINISH_FSL_BIT :: uint32_t where
  "FINISH_FSL_BIT = 0x80000000"

text \<open>\<^verbatim>\<open>FirmwareUpdateCtxt_t\<close>; the field \<^verbatim>\<open>length\<close> is \<open>length_fw\<close> here.\<close>

record FirmwareUpdateCtxt_t =
  bUpdateInProgress :: bool
  length_fw :: uint32_t
  bytesReceived :: uint32_t
  fwImageBase :: uint32_t
  fwImagePtr :: uint32_t
  cmd :: string_t

subsection \<open>Messages between host and bootloader\<close>

text \<open>
  Modelled from the spec: the request and response frames. The buffer types and their
  accessor macros belong to the IDL runtime, whose headers are not among the sources;
  the spec treats a frame as its fields "classCode, serviceCode, attributeCode,
  payloadOffset, length, statusCode". A request is its class code and the operation that
  its service code, attribute code and payload encode; a response is its status code,
  its length field and its payload.
\<close>

datatype class_code = k_CC_FirmwareUpdate | k_CC_AvbSystem | k_CC_other nat

datatype operation =
    Op_sendCommand string_t
  | Op_startFirmwareUpdate string_t uint32_t
  | Op_sendDataPacket FirmwareUpdate__FwData
  | Op_get_ExecutingImageType
  | Op_remainInBootloader
  | Op_requestBootDelay
  | Op_get_eventQueueEnabled uint32_t
  | Op_set_eventQueueEnabled uint32_t bool
  | Op_get_nextQueuedEvent

record RequestMessageBuffer_t =
  classCode_req :: class_code
  operation_req :: operation

datatype payload =
    No_payload
  | Image_payload FirmwareUpdate__CodeImageType
  | Bool_payload bool
  | Event_payload FirmwareUpdate__GenericEvent

record ResponseMessageBuffer_t =
  statusCode_resp :: AvbDefs__ErrorCode
  length_resp :: uint32_t
  payload_resp :: payload

subsection \<open>Trace of calls that leave the module\<close>

datatype console =
    Msg_Got_startFirmwareUpdate string_t uint32_t
  | Msg_Received_all uint32_t
  | Msg_Verifying_Checksum
  | Msg_Bad_Data_CRC
  | Msg_OK
  | Msg_Mailbox_sendCommand string_t nat
  | Msg_Setting_event_queue uint32_t bool
  | Msg_Sending_event uint32_t FirmwareUpdate__FirmwareUpdateExecutionState
  | Msg_Reconfiguration_failed
  | Msg_Update_Requested
  | Msg_Boot_Delay_Requested
  | Msg_No_update_requested
  | Msg_Entering_firmware_update
  | Msg_Firmware_update_completed

text \<open>
  \<open>Enter_executeFirmwareUpdate\<close> marks each call of \<^verbatim>\<open>executeFirmwareUpdate\<close>; the other
  actions are the calls the C code makes.
\<close>

datatype action =
    Printf console
  | Parse_string_outer string_t
  | WriteLabXMailbox ResponseMessageBuffer_t uint32_t
  | TrigAsyncLabXMailbox
  | SetupLabXMailbox
  | Putfslx uint32_t
  | Putfslx_control uint32_t
  | Udelay nat
  | Enter_executeFirmwareUpdate

subsection \<open>The platform: constants and collaborators declared outside the file\<close>

text \<open>
  The base address of the staging region, the payload offset of a response, the image
  checks of U-Boot, the hush parser and the size of an encoded payload are declared in
  headers that are not part of the sources. They are parameters: every theorem below
  holds for each choice of them. \<open>image_check_type\<close> stands for the check against
  \<^verbatim>\<open>IH_TYPE_KERNEL\<close> of the header at the given address; the shell reads and writes the
  variable store and the memory and returns its exit code.
\<close>

type_synonym memory = "uint32_t \<Rightarrow> uint8_t"
type_synonym environment = "string \<Rightarrow> string option"

record platform =
  XPAR_DDR2_CONTROL_MPMC_BASEADDR :: uint32_t
  getPayloadOffset_resp :: uint32_t
  image_check_type :: "memory \<Rightarrow> uint32_t \<Rightarrow> bool"
  image_check_dcrc :: "memory \<Rightarrow> uint32_t \<Rightarrow> bool"
  parse_string_outer :: "string_t \<Rightarrow> environment \<Rightarrow> memory \<Rightarrow> int \<times> environment \<times> memory"
  payload_size :: "payload \<Rightarrow> uint32_t"
  event_scratch :: FirmwareUpdate__GenericEvent

subsection \<open>The state: the globals of the file, the memory and the variable store\<close>

text \<open>
  The five \<^verbatim>\<open>int\<close> flags only ever hold \<^verbatim>\<open>TRUE\<close> or \<^verbatim>\<open>FALSE\<close>. \<open>state\<close> is the cell
  the global pointer \<^verbatim>\<open>state\<close> points to; \<open>response\<close> is the static response buffer.
  \<open>mem\<close> is the memory outside these globals, the staging region in it; \<open>env\<close> is
  the variable store of U-Boot.
\<close>

record sys =
  bootDelay :: bool
  firmwareUpdate :: bool
  executeUpdate :: bool
  queueEnabled :: bool
  eventValid :: bool
  fwUpdateCtxt :: FirmwareUpdateCtxt_t
  state :: FirmwareUpdate__FirmwareUpdateExecutionState
  response :: ResponseMessageBuffer_t
  mem :: memory
  env :: environment
  trace :: "action list"

definition emit :: "action \<Rightarrow> sys \<Rightarrow> sys" where
  "emit a s = s\<lparr>trace := trace s @ [a]\<rparr>"

definition setenv :: "string \<Rightarrow> string \<Rightarrow> sys \<Rightarrow> sys" where
  "setenv name v s = s\<lparr>env := (env s)(name \<mapsto> v)\<rparr>"

text \<open>\<^verbatim>\<open>memcpy(dst, src, n)\<close>: byte \<open>i < n\<close> of the source lands at address \<open>dst + i\<close>.\<close>

definition memcpy :: "memory \<Rightarrow> uint32_t \<Rightarrow> uint8_t list \<Rightarrow> nat \<Rightarrow> memory" where
  "memcpy m dst src n = (\<lambda>a. if unat (a - dst) < n then src ! unat (a - dst) else m a)"

subsection \<open>Update session\<close>

definition get_ExecutingImageType :: "AvbDefs__ErrorCode \<times> FirmwareUpdate__CodeImageType" where
  "get_ExecutingImageType = (e_EC_SUCCESS, e_CODE_IMAGE_BOOT)"

definition startFirmwareUpdate ::
  "platform \<Rightarrow> string_t \<Rightarrow> uint32_t \<Rightarrow> sys \<Rightarrow> AvbDefs__ErrorCode \<times> sys" where
  "startFirmwareUpdate p c len s =
    (let s0 = emit (Printf (Msg_Got_startFirmwareUpdate c len)) s;
         returnValue = (if bUpdateInProgress (fwUpdateCtxt s0)
                        then e_EC_UPDATE_ALREADY_IN_PROGRESS else e_EC_SUCCESS);
         c1 = (fwUpdateCtxt s0)\<lparr>bUpdateInProgress := True\<rparr>;
         c2 = c1\<lparr>length_fw := len\<rparr>;
         c3 = c2\<lparr>cmd := c\<rparr>;
         c4 = c3\<lparr>bytesReceived := 0\<rparr>;
         c5 = c4\<lparr>fwImageBase := XPAR_DDR2_CONTROL_MPMC_BASEADDR p\<rparr>;
         c6 = c5\<lparr>fwImagePtr := fwImageBase c5\<rparr>
     in (returnValue, s0\<lparr>fwUpdateCtxt := c6\<rparr>))"

definition sendDataPacket ::
  "FirmwareUpdate__FwData \<Rightarrow> sys \<Rightarrow> AvbDefs__ErrorCode \<times> sys" where
  "sendDataPacket d s =
    (if \<not> bUpdateInProgress (fwUpdateCtxt s) then (e_EC_UPDATE_NOT_IN_PROGRESS, s)
     else
       let s1 = s\<lparr>mem := memcpy (mem s) (fwImagePtr (fwUpdateCtxt s)) d (unat (m_size d))\<rparr>;
           s2 = s1\<lparr>fwUpdateCtxt := (fwUpdateCtxt s1)
                  \<lparr>bytesReceived := bytesReceived (fwUpdateCtxt s1) + m_size d\<rparr>\<rparr>
       in if length_fw (fwUpdateCtxt s2) \<le> bytesReceived (fwUpdateCtxt s2) then
            let s3 = emit (Printf (Msg_Received_all (length_fw (fwUpdateCtxt s2)))) s2;
                s4 = s3\<lparr>executeUpdate := True\<rparr>;
                s5 = s4\<lparr>fwUpdateCtxt := (fwUpdateCtxt s4)\<lparr>bUpdateInProgress := False\<rparr>\<rparr>
            in (e_EC_SUCCESS, s5)
          else
            (e_EC_SUCCESS,
             s2\<lparr>fwUpdateCtxt := (fwUpdateCtxt s2)
                  \<lparr>fwImagePtr := fwImagePtr (fwUpdateCtxt s2) + m_size d\<rparr>\<rparr>))"

subsection \<open>Update executor\<close>

definition doCrcCheck :: "platform \<Rightarrow> sys \<Rightarrow> int \<times> sys" where
  "doCrcCheck p s =
    (if image_check_type p (mem s) (fwImageBase (fwUpdateCtxt s)) then
       let s1 = emit (Printf Msg_Verifying_Checksum) s;
           s2 = setenv ''crcreturn'' ''0'' s1
       in if \<not> image_check_dcrc p (mem s2) (fwImageBase (fwUpdateCtxt s2)) then
            let s3 = emit (Printf Msg_Bad_Data_CRC) s2;
                s4 = setenv ''crcreturn'' ''1'' s3
            in (0, s4)
          else (1, emit (Printf Msg_OK) s2)
     else (0, s))"

text \<open>The hush parser, run on a command: the call is traced, the shell does the rest.\<close>

definition run_parse_string_outer :: "platform \<Rightarrow> string_t \<Rightarrow> sys \<Rightarrow> int \<times> sys" where
  "run_parse_string_outer p c s =
    (let s0 = emit (Parse_string_outer c) s;
         (rc, e, m) = parse_string_outer p c (env s0) (mem s0)
     in (rc, s0\<lparr>env := e, mem := m\<rparr>))"

definition executeFirmwareUpdate :: "platform \<Rightarrow> sys \<Rightarrow> int \<times> sys" where
  "executeFirmwareUpdate p s =
    (let s0 = emit Enter_executeFirmwareUpdate s;
         (ok, s1) = doCrcCheck p s0
     in if ok = 0 then (1, s1\<lparr>state := UPDATE_CORRUPT_IMAGE\<rparr>)
        else
          let (rc, s2) = run_parse_string_outer p (cmd (fwUpdateCtxt s1)) s1
          in if rc \<noteq> 0 then (1, s2\<lparr>state := UPDATE_NOT_EXECUTED\<rparr>)
             else (0, s2\<lparr>state := UPDATE_SUCCESS\<rparr>))"

subsection \<open>Services and attributes\<close>

definition sendCommand :: "platform \<Rightarrow> string_t \<Rightarrow> sys \<Rightarrow> AvbDefs__ErrorCode \<times> sys" where
  "sendCommand p c s =
    (let s0 = emit (Printf (Msg_Mailbox_sendCommand c (length c))) s;
         (rc, s1) = run_parse_string_outer p c s0
     in (if rc \<noteq> 0 then e_EC_NOT_EXECUTED else e_EC_SUCCESS, s1))"

definition remainInBootloader :: "sys \<Rightarrow> AvbDefs__ErrorCode \<times> sys" where
  "remainInBootloader s = (e_EC_SUCCESS, s\<lparr>firmwareUpdate := True\<rparr>)"

definition requestBootDelay :: "sys \<Rightarrow> AvbDefs__ErrorCode \<times> sys" where
  "requestBootDelay s = (e_EC_SUCCESS, s\<lparr>bootDelay := True\<rparr>)"

text \<open>
  \<^verbatim>\<open>get_eventQueueEnabled\<close> overwrites its parameter \<^verbatim>\<open>eventCode\<close> and never reads
  it; it returns the error code and the value stored through \<^verbatim>\<open>enabled\<close>.
\<close>

definition get_eventQueueEnabled :: "uint32_t \<Rightarrow> sys \<Rightarrow> AvbDefs__ErrorCode \<times> bool" where
  "get_eventQueueEnabled code s =
    (let code' = FIRMWARE_UPDATE_EVENT; enabled = queueEnabled s in (e_EC_SUCCESS, enabled))"

definition set_eventQueueEnabled ::
  "uint32_t \<Rightarrow> bool \<Rightarrow> sys \<Rightarrow> AvbDefs__ErrorCode \<times> sys" where
  "set_eventQueueEnabled code enabled s =
    (let s0 = emit (Printf (Msg_Setting_event_queue code enabled)) s
     in (e_EC_SUCCESS, s0\<lparr>queueEnabled := enabled\<rparr>))"

text \<open>
  \<^verbatim>\<open>get_nextQueuedEvent\<close> fills the caller's event: all three fields when an event is
  pending, only the event code otherwise.
\<close>

definition get_nextQueuedEvent ::
  "FirmwareUpdate__GenericEvent \<Rightarrow> sys \<Rightarrow>
   AvbDefs__ErrorCode \<times> FirmwareUpdate__GenericEvent \<times> sys" where
  "get_nextQueuedEvent event s =
    (if eventValid s then
       let e1 = event\<lparr>eventCode := FIRMWARE_UPDATE_EVENT\<rparr>;
           e2 = e1\<lparr>data_m_data0 := state s\<rparr>;
           e3 = e2\<lparr>data_m_size := 0x01\<rparr>;
           s1 = s\<lparr>eventValid := False\<rparr>;
           s2 = emit (Printf (Msg_Sending_event (eventCode e3) (state s1))) s1
       in (e_EC_SUCCESS, e3, s2)
     else (e_EC_SUCCESS, event\<lparr>eventCode := NULL_EVENT\<rparr>, s))"

subsection \<open>Unmarshalling\<close>

text \<open>
  Modelled from the spec: the fan-out of \<^verbatim>\<open>FirmwareUpdate__unmarshal\<close>, which is
  generated from the IDL and not among the sources. The spec: it "decodes the operation
  and invokes the matching session/attribute operation". The result is the operation's
  error code, the values it returns and the new state; the event handed to
  \<^verbatim>\<open>get_nextQueuedEvent\<close> is the platform's scratch event.
\<close>

definition invoke ::
  "platform \<Rightarrow> operation \<Rightarrow> sys \<Rightarrow> AvbDefs__ErrorCode \<times> payload \<times> sys" where
  "invoke p opn s =
    (case opn of
       Op_sendCommand c \<Rightarrow> (let (r, s') = sendCommand p c s in (r, No_payload, s'))
     | Op_startFirmwareUpdate c len \<Rightarrow>
         (let (r, s') = startFirmwareUpdate p c len s in (r, No_payload, s'))
     | Op_sendDataPacket d \<Rightarrow> (let (r, s') = sendDataPacket d s in (r, No_payload, s'))
     | Op_get_ExecutingImageType \<Rightarrow>
         (let (r, v) = get_ExecutingImageType in (r, Image_payload v, s))
     | Op_remainInBootloader \<Rightarrow> (let (r, s') = remainInBootloader s in (r, No_payload, s'))
     | Op_requestBootDelay \<Rightarrow> (let (r, s') = requestBootDelay s in (r, No_payload, s'))
     | Op_get_eventQueueEnabled code \<Rightarrow>
         (let (r, b) = get_eventQueueEnabled code s in (r, Bool_payload b, s))
     | Op_set_eventQueueEnabled code b \<Rightarrow>
         (let (r, s') = set_eventQueueEnabled code b s in (r, No_payload, s'))
     | Op_get_nextQueuedEvent \<Rightarrow>
         (let (r, ev, s') = get_nextQueuedEvent (event_scratch p) s
          in (r, Event_payload ev, s')))"

text \<open>
  Modelled from the spec: \<^verbatim>\<open>FirmwareUpdate__unmarshal\<close>, "given a request buffer and a
  response buffer, decodes the operation and invokes the matching session/attribute
  operation, filling the response". The status code of the response is the operation's
  error code, its payload the values the operation returns, its length the payload
  offset plus the size of the encoded payload.
\<close>

definition FirmwareUpdate__unmarshal :: "platform \<Rightarrow> RequestMessageBuffer_t \<Rightarrow> sys \<Rightarrow> sys" where
  "FirmwareUpdate__unmarshal p req s =
    (let (r, pl, s') = invoke p (operation_req req) s
     in s'\<lparr>response := \<lparr>statusCode_resp = r,
                          length_resp = getPayloadOffset_resp p + payload_size p pl,
                          payload_resp = pl\<rparr>\<rparr>)"

subsection \<open>Request dispatcher\<close>

text \<open>
  One request of \<^verbatim>\<open>DoFirmwareUpdate\<close>: the switch on the class code and the write of
  the response.
\<close>

definition DoFirmwareUpdate_request :: "platform \<Rightarrow> RequestMessageBuffer_t \<Rightarrow> sys \<Rightarrow> sys" where
  "DoFirmwareUpdate_request p req s =
    (let s1 = (case classCode_req req of
                 k_CC_FirmwareUpdate \<Rightarrow> FirmwareUpdate__unmarshal p req s
               | k_CC_AvbSystem \<Rightarrow> FirmwareUpdate__unmarshal p req s
               | k_CC_other n \<Rightarrow>
                   (let r1 = (response s)\<lparr>statusCode_resp := e_EC_INVALID_SERVICE_CODE\<rparr>;
                        r2 = r1\<lparr>length_resp := getPayloadOffset_resp p\<rparr>
                    in s\<lparr>response := r2\<rparr>));
         respSize = length_resp (response s1);
         s2 = s1\<lparr>response := (response s1)\<lparr>length_resp := respSize\<rparr>\<rparr>
     in emit (WriteLabXMailbox (response s2) respSize) s2)"

text \<open>The block after the response: a completed transfer is executed and announced.\<close>

definition DoFirmwareUpdate_execute :: "platform \<Rightarrow> sys \<Rightarrow> sys" where
  "DoFirmwareUpdate_execute p s =
    (if executeUpdate s then
       let (r, s1) = executeFirmwareUpdate p s;
           s2 = s1\<lparr>executeUpdate := False\<rparr>
       in if queueEnabled s2 then emit TrigAsyncLabXMailbox (s2\<lparr>eventValid := True\<rparr>)
          else s2
     else s)"

definition DoFirmwareUpdate_body :: "platform \<Rightarrow> RequestMessageBuffer_t \<Rightarrow> sys \<Rightarrow> sys" where
  "DoFirmwareUpdate_body p req s = DoFirmwareUpdate_execute p (DoFirmwareUpdate_request p req s)"

text \<open>
  The loop of \<^verbatim>\<open>DoFirmwareUpdate\<close> over the results of the blocking reads: \<open>Some req\<close>
  is a request, \<open>None\<close> a read that returned 0, which ends the loop with the return
  value 1. Once the host sends nothing more, the blocking read never returns, and
  neither does \<^verbatim>\<open>DoFirmwareUpdate\<close>. The result is the return value, \<open>None\<close> when
  the function never returns, and the state in which it returns or waits forever.
\<close>

fun DoFirmwareUpdate ::
  "platform \<Rightarrow> RequestMessageBuffer_t option list \<Rightarrow> sys \<Rightarrow> int option \<times> sys" where
  "DoFirmwareUpdate p [] s = (None, s)"
| "DoFirmwareUpdate p (None # reads) s = (Some 1, s)"
| "DoFirmwareUpdate p (Some req # reads) s = DoFirmwareUpdate p reads (DoFirmwareUpdate_body p req s)"

text \<open>The state after the loop has served the given requests.\<close>

definition DoFirmwareUpdate_served ::
  "platform \<Rightarrow> RequestMessageBuffer_t list \<Rightarrow> sys \<Rightarrow> sys" where
  "DoFirmwareUpdate_served p reqs s = foldl (\<lambda>s' req. DoFirmwareUpdate_body p req s') s reqs"

subsection \<open>Boot decision sequencer\<close>

text \<open>The writes to the configuration port that read back the GENERAL5 register.\<close>

definition CheckFirmwareUpdate_probe :: "sys \<Rightarrow> sys" where
  "CheckFirmwareUpdate_probe s =
    foldl (\<lambda>s' a. emit a s') s
      [SetupLabXMailbox,
       Putfslx_control 0x0FFFF, Udelay 1000,
       Putfslx 0x0FFFF, Putfslx 0x0FFFF, Putfslx 0x0AA99, Putfslx 0x05566,
       Putfslx 0x02AE1,
       Putfslx 0x02000, Putfslx 0x02000,
       Putfslx FINISH_FSL_BIT, Udelay 1000]"

text \<open>One request of the polling window of \<^verbatim>\<open>CheckFirmwareUpdate\<close>.\<close>

definition CheckFirmwareUpdate_request :: "platform \<Rightarrow> RequestMessageBuffer_t \<Rightarrow> sys \<Rightarrow> sys" where
  "CheckFirmwareUpdate_request p req s =
    (let s1 = (case classCode_req req of
                 k_CC_FirmwareUpdate \<Rightarrow> FirmwareUpdate__unmarshal p req s
               | _ \<Rightarrow>
                   (let r1 = (response s)\<lparr>statusCode_resp := e_EC_INVALID_SERVICE_CODE\<rparr>;
                        r2 = r1\<lparr>length_resp := getPayloadOffset_resp p\<rparr>
                    in s\<lparr>response := r2\<rparr>));
         respSize = length_resp (response s1);
         s2 = s1\<lparr>response := (response s1)\<lparr>length_resp := respSize\<rparr>\<rparr>
     in emit (WriteLabXMailbox (response s2) respSize) s2)"

text \<open>
  The polling window. The first argument is the number of attempts left (the C loop
  counts \<open>i\<close> from 0 to 3); the list holds what each non-blocking read finds, \<open>None\<close>
  or the end of the list for an empty mailbox.
\<close>

fun CheckFirmwareUpdate_poll ::
  "platform \<Rightarrow> nat \<Rightarrow> RequestMessageBuffer_t option list \<Rightarrow> sys \<Rightarrow> sys" where
  "CheckFirmwareUpdate_poll p 0 polls s = s"
| "CheckFirmwareUpdate_poll p (Suc n) [] s =
     CheckFirmwareUpdate_poll p n [] (emit (Udelay 250000) s)"
| "CheckFirmwareUpdate_poll p (Suc n) (None # polls) s =
     CheckFirmwareUpdate_poll p n polls (emit (Udelay 250000) s)"
| "CheckFirmwareUpdate_poll p (Suc n) (Some req # polls) s =
     (let s1 = CheckFirmwareUpdate_request p req s
      in if statusCode_resp (response s1) = e_EC_SUCCESS then s1
         else CheckFirmwareUpdate_poll p n polls s1)"

text \<open>
  The requests that the reads of the polling window return, in order: what the first
  four polls find, up to and including the first request that is answered with
  \<open>e_EC_SUCCESS\<close>, where the window ends.
\<close>

fun CheckFirmwareUpdate_received ::
  "platform \<Rightarrow> nat \<Rightarrow> RequestMessageBuffer_t option list \<Rightarrow> sys \<Rightarrow>
   RequestMessageBuffer_t list" where
  "CheckFirmwareUpdate_received p 0 polls s = []"
| "CheckFirmwareUpdate_received p (Suc n) [] s = []"
| "CheckFirmwareUpdate_received p (Suc n) (None # polls) s =
     CheckFirmwareUpdate_received p n polls (emit (Udelay 250000) s)"
| "CheckFirmwareUpdate_received p (Suc n) (Some req # polls) s =
     req # (let s1 = CheckFirmwareUpdate_request p req s
            in if statusCode_resp (response s1) = e_EC_SUCCESS then []
               else CheckFirmwareUpdate_received p n polls s1)"

text \<open>\<^verbatim>\<open>while(1);\<close> never returns: its value is \<open>None\<close>.\<close>

partial_function (option) wait_for_reset :: "sys \<Rightarrow> int option" where
  "wait_for_reset s = wait_for_reset s"

text \<open>
  \<^verbatim>\<open>CheckFirmwareUpdate\<close>, given the word read back from the configuration port, what
  the polls of the window find and what the blocking reads of update mode return. The
  result is the return value, \<open>None\<close> when the function never returns, and the state in
  which it returns or stays forever.
\<close>

definition CheckFirmwareUpdate ::
  "platform \<Rightarrow> u16 \<Rightarrow> RequestMessageBuffer_t option list \<Rightarrow>
   RequestMessageBuffer_t option list \<Rightarrow> sys \<Rightarrow> int option \<times> sys" where
  "CheckFirmwareUpdate p readValue polls reads s =
    (let s1 = CheckFirmwareUpdate_probe s;
         s2 = CheckFirmwareUpdate_poll p 4 polls s1;
         (doUpdate, returnValue, s3) =
           (if readValue = GENERAL5_MAGIC then
              (1 :: int, 0 :: int, emit (Printf Msg_Reconfiguration_failed) s2)
            else if firmwareUpdate s2 then (1, 0, emit (Printf Msg_Update_Requested) s2)
            else if bootDelay s2 then (0, 1, emit (Printf Msg_Boot_Delay_Requested) s2)
            else (0, 0, emit (Printf Msg_No_update_requested) s2))
     in if doUpdate \<noteq> 0 then
          (case DoFirmwareUpdate p reads (emit (Printf Msg_Entering_firmware_update) s3) of
             (None, s4) \<Rightarrow> (None, s4)
           | (Some r, s4) \<Rightarrow>
               (let s5 = emit (Printf Msg_Firmware_update_completed) s4
                in (wait_for_reset s5, s5)))
        else (Some returnValue, s3))"

subsection \<open>Power-on state and simulated collaborators\<close>

text \<open>
  The state at power-on: the globals are zero-initialised; the cell behind \<^verbatim>\<open>state\<close>,
  the response buffer, the memory and the variable store are whatever they are.
\<close>

definition power_on ::
  "FirmwareUpdate__FirmwareUpdateExecutionState \<Rightarrow> ResponseMessageBuffer_t \<Rightarrow> memory \<Rightarrow>
   environment \<Rightarrow> sys" where
  "power_on st r m e =
    \<lparr>bootDelay = False, firmwareUpdate = False, executeUpdate = False, queueEnabled = False,
     eventValid = False,
     fwUpdateCtxt = \<lparr>bUpdateInProgress = False, length_fw = 0, bytesReceived = 0,
                     fwImageBase = 0, fwImagePtr = 0, cmd = []\<rparr>,
     state = st, response = r, mem = m, env = e, trace = []\<rparr>"

text \<open>A concrete power-on state for the examples.\<close>

definition sys0 :: sys where
  "sys0 = power_on UPDATE_SUCCESS
            \<lparr>statusCode_resp = e_EC_SUCCESS, length_resp = 0, payload_resp = No_payload\<rparr>
            (\<lambda>_. 0) Map.empty"

text \<open>
  Simulated collaborators for the examples: the image checks answer as told, the shell
  returns the given exit code and touches nothing.
\<close>

definition sim_platform :: "bool \<Rightarrow> bool \<Rightarrow> int \<Rightarrow> platform" where
  "sim_platform type_ok crc_ok rc =
    \<lparr>XPAR_DDR2_CONTROL_MPMC_BASEADDR = 0x90000000,
     getPayloadOffset_resp = 8,
     image_check_type = (\<lambda>m a. type_ok),
     image_check_dcrc = (\<lambda>m a. crc_ok),
     parse_string_outer = (\<lambda>c e m. (rc, e, m)),
     payload_size = (\<lambda>pl. case pl of No_payload \<Rightarrow> 0 | Image_payload v \<Rightarrow> 4
                          | Bool_payload b \<Rightarrow> 1 | Event_payload ev \<Rightarrow> 9),
     event_scratch = \<lparr>eventCode = 0, data_m_data0 = UPDATE_SUCCESS, data_m_size = 0\<rparr>\<rparr>"

subsection \<open>Sequences of session calls\<close>

text \<open>
  The two session operations, \<open>start\<close> and \<open>acceptPacket\<close> of the specification, and a
  run of them in order.
\<close>

datatype session_call = Start string_t uint32_t | AcceptPacket FirmwareUpdate__FwData

fun session_step :: "platform \<Rightarrow> session_call \<Rightarrow> sys \<Rightarrow> sys" where
  "session_step p (Start c len) s = snd (startFirmwareUpdate p c len s)"
| "session_step p (AcceptPacket d) s = snd (sendDataPacket d s)"

definition session_run :: "platform \<Rightarrow> session_call list \<Rightarrow> sys \<Rightarrow> sys" where
  "session_run p calls s = foldl (\<lambda>s' c. session_step p c s') s calls"

text \<open>
  The invariant in the words of the specification: "receivedLength <= expectedLength at
  all times; bufferCursor - bufferBase == receivedLength".
\<close>

definition session_invariant :: "sys \<Rightarrow> bool" where
  "session_invariant s =
    (bytesReceived (fwUpdateCtxt s) \<le> length_fw (fwUpdateCtxt s) \<and>
     fwImagePtr (fwUpdateCtxt s) - fwImageBase (fwUpdateCtxt s) = bytesReceived (fwUpdateCtxt s))"

text \<open>The same, required only while a session is in progress.\<close>

definition in_progress_invariant :: "sys \<Rightarrow> bool" where
  "in_progress_invariant s = (bUpdateInProgress (fwUpdateCtxt s) \<longrightarrow> session_invariant s)"

subsection \<open>The executor in the words of the specification\<close>

text \<open>
  The reference definition of \<open>execute\<close>: an image of unrecognized type passes through to
  the post-command; a recognized image whose CRC check fails has the failure indicator
  stored and yields \<open>CorruptImage\<close>; otherwise the post-command runs and its exit code
  decides between \<open>NotExecuted\<close> and \<open>Success\<close>.
\<close>

definition execute_reference ::
  "platform \<Rightarrow> sys \<Rightarrow> FirmwareUpdate__FirmwareUpdateExecutionState \<times> sys" where
  "execute_reference p s =
    (let post_command =
           (\<lambda>s0. let (rc, s1) = run_parse_string_outer p (cmd (fwUpdateCtxt s0)) s0
                 in (if rc \<noteq> 0 then UPDATE_NOT_EXECUTED else UPDATE_SUCCESS, s1))
     in if \<not> image_check_type p (mem s) (fwImageBase (fwUpdateCtxt s)) then post_command s
        else if \<not> image_check_dcrc p (mem s) (fwImageBase (fwUpdateCtxt s))
        then (UPDATE_CORRUPT_IMAGE, setenv ''crcreturn'' ''1'' s)
        else post_command s)"

subsection \<open>Requests of a transfer and counters on the trace\<close>

definition start_request :: "string_t \<Rightarrow> uint32_t \<Rightarrow> RequestMessageBuffer_t" where
  "start_request c len =
    \<lparr>classCode_req = k_CC_FirmwareUpdate, operation_req = Op_startFirmwareUpdate c len\<rparr>"

definition packet_request :: "FirmwareUpdate__FwData \<Rightarrow> RequestMessageBuffer_t" where
  "packet_request d =
    \<lparr>classCode_req = k_CC_FirmwareUpdate, operation_req = Op_sendDataPacket d\<rparr>"

text \<open>How often \<^verbatim>\<open>executeFirmwareUpdate\<close> has been called.\<close>

definition executions :: "sys \<Rightarrow> nat" where
  "executions s = count_list (trace s) Enter_executeFirmwareUpdate"

text \<open>
  How often a session has completed: \<^verbatim>\<open>sendDataPacket\<close> prints "Received all ... bytes
  of image" in the branch that raises \<^verbatim>\<open>executeUpdate\<close> and clears
  \<^verbatim>\<open>bUpdateInProgress\<close>, and nowhere else.
\<close>

fun is_completion :: "action \<Rightarrow> bool" where
  "is_completion (Printf (Msg_Received_all n)) = True"
| "is_completion a = False"

definition completions :: "sys \<Rightarrow> nat" where
  "completions s = length (filter is_completion (trace s))"

subsection \<open>Example states and requests\<close>

text \<open>
  The scenario of the specification: \<open>start("run commit", 4)\<close>, then one packet of four
  bytes; the transfer is complete and waits for execution.
\<close>

definition staged :: "platform \<Rightarrow> sys" where
  "staged p = snd (sendDataPacket [0xDE, 0xAD, 0xBE, 0xEF]
                    (snd (startFirmwareUpdate p ''run commit'' 4 sys0)))"

text \<open>A transfer of four bytes of which two have arrived.\<close>

definition halfway :: "platform \<Rightarrow> sys" where
  "halfway p = snd (sendDataPacket [0xDE, 0xAD] (snd (startFirmwareUpdate p ''run commit'' 4 sys0)))"

definition avb_request :: RequestMessageBuffer_t where
  "avb_request = \<lparr>classCode_req = k_CC_AvbSystem, operation_req = Op_get_ExecutingImageType\<rparr>"

definition remain_request :: RequestMessageBuffer_t where
  "remain_request = \<lparr>classCode_req = k_CC_FirmwareUpdate, operation_req = Op_remainInBootloader\<rparr>"

definition delay_request :: RequestMessageBuffer_t where
  "delay_request = \<lparr>classCode_req = k_CC_FirmwareUpdate, operation_req = Op_requestBootDelay\<rparr>"

section \<open>Properties\<close>

subsection \<open>Auxiliary facts\<close>

lemma wait_for_reset_Some: "wait_for_reset s = Some y \<Longrightarrow> False"
  by (rule wait_for_reset.raw_induct [where P = "\<lambda>_ _. False"])

lemma wait_for_reset_None: "wait_for_reset s = None"
  using wait_for_reset_Some [of s] by (cases "wait_for_reset s") auto

text \<open>The loop serves its requests one after the other.\<close>

lemma DoFirmwareUpdate_serves:
  "DoFirmwareUpdate p (map Some reqs @ reads) s =
     DoFirmwareUpdate p reads (DoFirmwareUpdate_served p reqs s)"
  by (induction reqs arbitrary: s) (simp_all add: DoFirmwareUpdate_served_def)

text \<open>
  When the host stops sending, the loop has served what was sent and blocks; a read
  that returns 0 ends it with the value 1.
\<close>

lemma DoFirmwareUpdate_blocks:
  "DoFirmwareUpdate p (map Some reqs) s = (None, DoFirmwareUpdate_served p reqs s)"
  using DoFirmwareUpdate_serves [of p reqs "[]" s] by simp

lemma DoFirmwareUpdate_exits:
  "DoFirmwareUpdate p (map Some reqs @ None # rest) s =
     (Some 1, DoFirmwareUpdate_served p reqs s)"
  using DoFirmwareUpdate_serves [of p reqs "None # rest" s] by simp

lemma executeFirmwareUpdate_counts:
  "executeFirmwareUpdate p s = (r, s') \<Longrightarrow>
     executions s' = Suc (executions s) \<and> completions s' = completions s \<and>
     fwUpdateCtxt s' = fwUpdateCtxt s \<and> executeUpdate s' = executeUpdate s"
  by (auto simp: executeFirmwareUpdate_def doCrcCheck_def run_parse_string_outer_def
      executions_def completions_def emit_def setenv_def Let_def split: prod.splits if_splits)

lemma executeFirmwareUpdate_eventValid:
  "executeFirmwareUpdate p (s\<lparr>eventValid := v\<rparr>) =
     (fst (executeFirmwareUpdate p s), (snd (executeFirmwareUpdate p s))\<lparr>eventValid := v\<rparr>)"
  by (auto simp add: executeFirmwareUpdate_def doCrcCheck_def run_parse_string_outer_def
      emit_def setenv_def Let_def split: prod.splits)

lemma executeFirmwareUpdate_queueEnabled:
  "queueEnabled (snd (executeFirmwareUpdate p s)) = queueEnabled s"
  by (auto simp add: executeFirmwareUpdate_def doCrcCheck_def run_parse_string_outer_def
      emit_def setenv_def Let_def split: prod.splits)

lemma DoFirmwareUpdate_execute_pending:
  assumes pend: "executeUpdate s"
  shows "executions (DoFirmwareUpdate_execute p s) = Suc (executions s) \<and>
     completions (DoFirmwareUpdate_execute p s) = completions s \<and>
     fwUpdateCtxt (DoFirmwareUpdate_execute p s) = fwUpdateCtxt s \<and>
     \<not> executeUpdate (DoFirmwareUpdate_execute p s)"
proof -
  obtain r s' where ex: "executeFirmwareUpdate p s = (r, s')"
    by (cases "executeFirmwareUpdate p s")
  from executeFirmwareUpdate_counts [OF ex] pend ex show ?thesis
    by (simp add: DoFirmwareUpdate_execute_def Let_def executions_def completions_def emit_def)
qed

lemma body_start:
  "\<not> executeUpdate s \<Longrightarrow>
     fwUpdateCtxt (DoFirmwareUpdate_body p (start_request c len) s) =
       \<lparr>bUpdateInProgress = True, length_fw = len, bytesReceived = 0,
        fwImageBase = XPAR_DDR2_CONTROL_MPMC_BASEADDR p,
        fwImagePtr = XPAR_DDR2_CONTROL_MPMC_BASEADDR p, cmd = c\<rparr> \<and>
     \<not> executeUpdate (DoFirmwareUpdate_body p (start_request c len) s) \<and>
     executions (DoFirmwareUpdate_body p (start_request c len) s) = executions s \<and>
     completions (DoFirmwareUpdate_body p (start_request c len) s) = completions s"
  by (simp add: DoFirmwareUpdate_body_def DoFirmwareUpdate_request_def DoFirmwareUpdate_execute_def
      FirmwareUpdate__unmarshal_def invoke_def start_request_def startFirmwareUpdate_def
      executions_def completions_def emit_def Let_def)

lemma body_packet_idle:
  "\<not> bUpdateInProgress (fwUpdateCtxt s) \<Longrightarrow> \<not> executeUpdate s \<Longrightarrow>
     fwUpdateCtxt (DoFirmwareUpdate_body p (packet_request d) s) = fwUpdateCtxt s \<and>
     \<not> executeUpdate (DoFirmwareUpdate_body p (packet_request d) s) \<and>
     executions (DoFirmwareUpdate_body p (packet_request d) s) = executions s \<and>
     completions (DoFirmwareUpdate_body p (packet_request d) s) = completions s \<and>
     statusCode_resp (response (DoFirmwareUpdate_body p (packet_request d) s)) =
       e_EC_UPDATE_NOT_IN_PROGRESS"
  by (simp add: DoFirmwareUpdate_body_def DoFirmwareUpdate_request_def DoFirmwareUpdate_execute_def
      FirmwareUpdate__unmarshal_def invoke_def packet_request_def sendDataPacket_def
      executions_def completions_def emit_def Let_def)

lemma body_packet_more:
  "bUpdateInProgress (fwUpdateCtxt s) \<Longrightarrow> \<not> executeUpdate s \<Longrightarrow>
   \<not> length_fw (fwUpdateCtxt s) \<le> bytesReceived (fwUpdateCtxt s) + m_size d \<Longrightarrow>
     bUpdateInProgress (fwUpdateCtxt (DoFirmwareUpdate_body p (packet_request d) s)) \<and>
     length_fw (fwUpdateCtxt (DoFirmwareUpdate_body p (packet_request d) s)) =
       length_fw (fwUpdateCtxt s) \<and>
     bytesReceived (fwUpdateCtxt (DoFirmwareUpdate_body p (packet_request d) s)) =
       bytesReceived (fwUpdateCtxt s) + m_size d \<and>
     \<not> executeUpdate (DoFirmwareUpdate_body p (packet_request d) s) \<and>
     executions (DoFirmwareUpdate_body p (packet_request d) s) = executions s \<and>
     completions (DoFirmwareUpdate_body p (packet_request d) s) = completions s"
  by (simp add: DoFirmwareUpdate_body_def DoFirmwareUpdate_request_def DoFirmwareUpdate_execute_def
      FirmwareUpdate__unmarshal_def invoke_def packet_request_def sendDataPacket_def
      executions_def completions_def emit_def Let_def)

lemma request_packet_last:
  "bUpdateInProgress (fwUpdateCtxt s) \<Longrightarrow>
   length_fw (fwUpdateCtxt s) \<le> bytesReceived (fwUpdateCtxt s) + m_size d \<Longrightarrow>
     \<not> bUpdateInProgress (fwUpdateCtxt (DoFirmwareUpdate_request p (packet_request d) s)) \<and>
     executeUpdate (DoFirmwareUpdate_request p (packet_request d) s) \<and>
     executions (DoFirmwareUpdate_request p (packet_request d) s) = executions s \<and>
     completions (DoFirmwareUpdate_request p (packet_request d) s) = Suc (completions s)"
  by (simp add: DoFirmwareUpdate_request_def
      FirmwareUpdate__unmarshal_def invoke_def packet_request_def sendDataPacket_def
      executions_def completions_def emit_def Let_def)

lemma body_packet_last:
  assumes "bUpdateInProgress (fwUpdateCtxt s)"
    and "length_fw (fwUpdateCtxt s) \<le> bytesReceived (fwUpdateCtxt s) + m_size d"
  shows "\<not> bUpdateInProgress (fwUpdateCtxt (DoFirmwareUpdate_body p (packet_request d) s)) \<and>
     \<not> executeUpdate (DoFirmwareUpdate_body p (packet_request d) s) \<and>
     executions (DoFirmwareUpdate_body p (packet_request d) s) = Suc (executions s) \<and>
     completions (DoFirmwareUpdate_body p (packet_request d) s) = Suc (completions s)"
proof -
  let ?s1 = "DoFirmwareUpdate_request p (packet_request d) s"
  note a = request_packet_last [OF assms, of p]
  then have "executeUpdate ?s1" by simp
  from DoFirmwareUpdate_execute_pending [OF this, of p] a show ?thesis
    by (simp add: DoFirmwareUpdate_body_def)
qed

lemma served_idle:
  "\<not> bUpdateInProgress (fwUpdateCtxt s) \<Longrightarrow> \<not> executeUpdate s \<Longrightarrow>
     \<not> bUpdateInProgress (fwUpdateCtxt (DoFirmwareUpdate_served p (map packet_request pkts) s)) \<and>
     \<not> executeUpdate (DoFirmwareUpdate_served p (map packet_request pkts) s) \<and>
     executions (DoFirmwareUpdate_served p (map packet_request pkts) s) = executions s \<and>
     completions (DoFirmwareUpdate_served p (map packet_request pkts) s) = completions s"
proof (induction pkts arbitrary: s)
  case Nil
  then show ?case by (simp add: DoFirmwareUpdate_served_def)
next
  case (Cons d pkts)
  note b = body_packet_idle [OF Cons.prems, of p d]
  from b have i1: "\<not> bUpdateInProgress (fwUpdateCtxt (DoFirmwareUpdate_body p (packet_request d) s))"
    using Cons.prems by simp
  from b have i2: "\<not> executeUpdate (DoFirmwareUpdate_body p (packet_request d) s)" by simp
  from Cons.IH [OF i1 i2] b show ?case
    by (simp add: DoFirmwareUpdate_served_def)
qed

text \<open>
  Packets that bring a session in progress exactly to its declared length: the packet
  that reaches the length completes the session and is followed by the execution; the
  packets before it are stored, the (empty) packets after it are rejected.
\<close>

lemma served_packets:
  "bUpdateInProgress (fwUpdateCtxt s) \<Longrightarrow> \<not> executeUpdate s \<Longrightarrow> pkts \<noteq> [] \<Longrightarrow>
   unat (bytesReceived (fwUpdateCtxt s)) + sum_list (map length pkts) =
     unat (length_fw (fwUpdateCtxt s)) \<Longrightarrow>
     \<not> bUpdateInProgress (fwUpdateCtxt (DoFirmwareUpdate_served p (map packet_request pkts) s)) \<and>
     \<not> executeUpdate (DoFirmwareUpdate_served p (map packet_request pkts) s) \<and>
     executions (DoFirmwareUpdate_served p (map packet_request pkts) s) = Suc (executions s) \<and>
     completions (DoFirmwareUpdate_served p (map packet_request pkts) s) = Suc (completions s)"
proof (induction pkts arbitrary: s)
  case Nil
  then show ?case by simp
next
  case (Cons d pkts)
  let ?L = "length_fw (fwUpdateCtxt s)" and ?r = "bytesReceived (fwUpdateCtxt s)"
  let ?s1 = "DoFirmwareUpdate_body p (packet_request d) s"
  from Cons.prems(4) have sum: "unat ?r + length d + sum_list (map length pkts) = unat ?L"
    by simp
  have "unat ?L < 2 ^ 32" using unsigned_less [of ?L] by simp
  with sum have small: "length d < 2 ^ 32" and nowrap: "unat ?r + length d < 2 ^ 32"
    by simp_all
  from small have sz: "unat (m_size d) = length d"
    by (simp add: m_size_def unat_of_nat)
  with nowrap have add: "unat (?r + m_size d) = unat ?r + length d"
    by (simp add: unat_add_lem [THEN iffD1])
  show ?case
  proof (cases "?L \<le> ?r + m_size d")
    case True
    note l = body_packet_last [OF Cons.prems(1) True, of p]
    from l have i1: "\<not> bUpdateInProgress (fwUpdateCtxt ?s1)" and i2: "\<not> executeUpdate ?s1"
      by simp_all
    from served_idle [OF i1 i2, of p pkts] l show ?thesis
      by (simp add: DoFirmwareUpdate_served_def)
  next
    case False
    note m = body_packet_more [OF Cons.prems(1) Cons.prems(2) False, of p]
    from False add have lt: "unat ?r + length d < unat ?L"
      by (simp add: word_le_nat_alt)
    with sum have ne: "pkts \<noteq> []" by auto
    from m have i1: "bUpdateInProgress (fwUpdateCtxt ?s1)" and i2: "\<not> executeUpdate ?s1"
      by simp_all
    from m add sum have i4: "unat (bytesReceived (fwUpdateCtxt ?s1)) + sum_list (map length pkts)
        = unat (length_fw (fwUpdateCtxt ?s1))" by simp
    from Cons.IH [OF i1 i2 ne i4] m show ?thesis
      by (simp add: DoFirmwareUpdate_served_def)
  qed
qed

lemma session_step_invariant:
  "in_progress_invariant s \<Longrightarrow> in_progress_invariant (session_step p c s)"
proof (cases c)
  case (Start c' len)
  then show ?thesis
    by (simp add: in_progress_invariant_def session_invariant_def startFirmwareUpdate_def
        emit_def Let_def)
next
  case (AcceptPacket d)
  assume inv: "in_progress_invariant s"
  show ?thesis
  proof (cases "bUpdateInProgress (fwUpdateCtxt s)")
    case False
    with inv AcceptPacket show ?thesis by (simp add: sendDataPacket_def)
  next
    case active: True
    with inv have ptr: "fwImagePtr (fwUpdateCtxt s) - fwImageBase (fwUpdateCtxt s) =
        bytesReceived (fwUpdateCtxt s)"
      by (simp add: in_progress_invariant_def session_invariant_def)
    show ?thesis
    proof (cases "length_fw (fwUpdateCtxt s) \<le> bytesReceived (fwUpdateCtxt s) + m_size d")
      case True
      with active AcceptPacket show ?thesis
        by (simp add: in_progress_invariant_def sendDataPacket_def emit_def Let_def)
    next
      case False
      have "fwImagePtr (fwUpdateCtxt s) + m_size d - fwImageBase (fwUpdateCtxt s)
              = bytesReceived (fwUpdateCtxt s) + m_size d"
        using ptr by (simp add: algebra_simps)
      with active False AcceptPacket show ?thesis
        by (simp add: in_progress_invariant_def session_invariant_def sendDataPacket_def Let_def)
    qed
  qed
qed

lemma session_run_invariant:
  "in_progress_invariant s \<Longrightarrow> in_progress_invariant (session_run p calls s)"
  unfolding session_run_def
  by (induction calls arbitrary: s) (simp_all add: session_step_invariant)

text \<open>The two boot flags change only through their own requests.\<close>

lemma run_parse_string_outer_flags:
  "firmwareUpdate (snd (run_parse_string_outer p c s)) = firmwareUpdate s \<and>
   bootDelay (snd (run_parse_string_outer p c s)) = bootDelay s"
  by (simp add: run_parse_string_outer_def emit_def Let_def case_prod_beta)

lemma invoke_flags:
  "firmwareUpdate (snd (snd (invoke p opn s))) = (firmwareUpdate s \<or> opn = Op_remainInBootloader) \<and>
   bootDelay (snd (snd (invoke p opn s))) = (bootDelay s \<or> opn = Op_requestBootDelay)"
  using run_parse_string_outer_flags [of p _ "emit _ s"]
  by (cases opn)
     (simp_all add: invoke_def sendCommand_def startFirmwareUpdate_def sendDataPacket_def
       get_ExecutingImageType_def remainInBootloader_def requestBootDelay_def
       get_eventQueueEnabled_def set_eventQueueEnabled_def get_nextQueuedEvent_def
       emit_def Let_def case_prod_beta)

lemma CheckFirmwareUpdate_request_flags:
  "firmwareUpdate (CheckFirmwareUpdate_request p req s) = (firmwareUpdate s \<or> req = remain_request) \<and>
   bootDelay (CheckFirmwareUpdate_request p req s) = (bootDelay s \<or> req = delay_request)"
  using invoke_flags [of p "operation_req req" s]
  by (cases req; cases "classCode_req req")
     (auto simp add: CheckFirmwareUpdate_request_def FirmwareUpdate__unmarshal_def
       remain_request_def delay_request_def emit_def Let_def case_prod_beta)

lemma CheckFirmwareUpdate_poll_flags:
  "firmwareUpdate (CheckFirmwareUpdate_poll p n polls s) =
     (firmwareUpdate s \<or> remain_request \<in> set (CheckFirmwareUpdate_received p n polls s)) \<and>
   bootDelay (CheckFirmwareUpdate_poll p n polls s) =
     (bootDelay s \<or> delay_request \<in> set (CheckFirmwareUpdate_received p n polls s))"
proof (induction p n polls s rule: CheckFirmwareUpdate_poll.induct)
  case (1 p polls s)
  then show ?case by simp
next
  case (2 p n s)
  then show ?case by (cases n) (simp_all add: emit_def)
next
  case (3 p n polls s)
  then show ?case by (simp add: emit_def)
next
  case (4 p n req polls s)
  show ?case
  proof (cases "statusCode_resp (response (CheckFirmwareUpdate_request p req s)) = e_EC_SUCCESS")
    case True
    then show ?thesis
      using CheckFirmwareUpdate_request_flags [of p req s] by (auto simp add: Let_def)
  next
    case False
    with "4.IH" [OF refl False] show ?thesis
      using CheckFirmwareUpdate_request_flags [of p req s] by (auto simp add: Let_def)
  qed
qed

lemma CheckFirmwareUpdate_probe_flags:
  "firmwareUpdate (CheckFirmwareUpdate_probe s) = firmwareUpdate s \<and>
   bootDelay (CheckFirmwareUpdate_probe s) = bootDelay s"
  by (simp add: CheckFirmwareUpdate_probe_def emit_def)

text \<open>What the example states hold.\<close>

lemma staged_simps:
  "fwUpdateCtxt (staged p) =
     \<lparr>bUpdateInProgress = False, length_fw = 4, bytesReceived = 4,
      fwImageBase = XPAR_DDR2_CONTROL_MPMC_BASEADDR p,
      fwImagePtr = XPAR_DDR2_CONTROL_MPMC_BASEADDR p, cmd = ''run commit''\<rparr>"
  "executeUpdate (staged p)" "\<not> queueEnabled (staged p)" "\<not> eventValid (staged p)"
  "env (staged p) = Map.empty" "state (staged p) = UPDATE_SUCCESS"
  "trace (staged p) = [Printf (Msg_Got_startFirmwareUpdate ''run commit'' 4),
                       Printf (Msg_Received_all 4)]"
  by (simp_all add: staged_def sys0_def power_on_def startFirmwareUpdate_def sendDataPacket_def
      emit_def m_size_def Let_def)

lemma halfway_simps:
  "fwUpdateCtxt (halfway p) =
     \<lparr>bUpdateInProgress = True, length_fw = 4, bytesReceived = 2,
      fwImageBase = XPAR_DDR2_CONTROL_MPMC_BASEADDR p,
      fwImagePtr = XPAR_DDR2_CONTROL_MPMC_BASEADDR p + 2, cmd = ''run commit''\<rparr>"
  by (simp add: halfway_def sys0_def power_on_def startFirmwareUpdate_def sendDataPacket_def
      emit_def m_size_def Let_def)

subsection \<open>Update executor\<close>

text \<open>
  C1, amended. \<^verbatim>\<open>executeFirmwareUpdate\<close> has three outcomes. If the staged image is not
  of the recognized type, it stores \<open>UPDATE_CORRUPT_IMAGE\<close> and returns 1; the variable
  store is untouched and the post-command does not run. If the type is recognized and
  the CRC check fails, \<open>crcreturn\<close> is left at "1" in the variable store, the state is
  \<open>UPDATE_CORRUPT_IMAGE\<close>, the return value 1, and the post-command does not run.
  Otherwise \<open>crcreturn\<close> is "0" when the post-command runs, and its exit code decides:
  non-zero gives \<open>UPDATE_NOT_EXECUTED\<close> and 1, zero gives \<open>UPDATE_SUCCESS\<close> and 0.
\<close>

theorem executeFirmwareUpdate_outcomes:
  "(case executeFirmwareUpdate p s of (r, s') \<Rightarrow>
     (let base = fwImageBase (fwUpdateCtxt s) in
      if \<not> image_check_type p (mem s) base then
        r = 1 \<and> state s' = UPDATE_CORRUPT_IMAGE \<and> env s' = env s \<and> mem s' = mem s \<and>
        trace s' = trace s @ [Enter_executeFirmwareUpdate]
      else if \<not> image_check_dcrc p (mem s) base then
        r = 1 \<and> state s' = UPDATE_CORRUPT_IMAGE \<and>
        env s' = (env s)(''crcreturn'' \<mapsto> ''1'') \<and> mem s' = mem s \<and>
        trace s' = trace s @ [Enter_executeFirmwareUpdate, Printf Msg_Verifying_Checksum,
                              Printf Msg_Bad_Data_CRC]
      else
        (case parse_string_outer p (cmd (fwUpdateCtxt s))
                ((env s)(''crcreturn'' \<mapsto> ''0'')) (mem s)
         of (rc, e, m) \<Rightarrow>
           r = (if rc \<noteq> 0 then 1 else 0) \<and>
           state s' = (if rc \<noteq> 0 then UPDATE_NOT_EXECUTED else UPDATE_SUCCESS) \<and>
           env s' = e \<and> mem s' = m \<and>
           trace s' = trace s @ [Enter_executeFirmwareUpdate, Printf Msg_Verifying_Checksum,
                                 Printf Msg_OK, Parse_string_outer (cmd (fwUpdateCtxt s))])))"
  by (auto simp add: executeFirmwareUpdate_def doCrcCheck_def run_parse_string_outer_def
      emit_def setenv_def Let_def split: prod.splits)

text \<open>
  The scenario of the specification: the transfer of "run commit" is staged, the type
  is recognized and the checksum fails.
\<close>

theorem executeFirmwareUpdate_outcomes_witness:
  "fst (executeFirmwareUpdate (sim_platform True False 0) (staged (sim_platform True False 0))) = 1 \<and>
   state (snd (executeFirmwareUpdate (sim_platform True False 0)
                 (staged (sim_platform True False 0)))) = UPDATE_CORRUPT_IMAGE \<and>
   env (snd (executeFirmwareUpdate (sim_platform True False 0)
                 (staged (sim_platform True False 0)))) ''crcreturn'' = Some ''1'' \<and>
   Parse_string_outer ''run commit'' \<notin>
     set (trace (snd (executeFirmwareUpdate (sim_platform True False 0)
                        (staged (sim_platform True False 0)))))"
proof -
  let ?p = "sim_platform True False 0"
  have ty: "image_check_type ?p (mem (staged ?p)) (fwImageBase (fwUpdateCtxt (staged ?p)))"
    by (simp add: sim_platform_def)
  have crc: "\<not> image_check_dcrc ?p (mem (staged ?p)) (fwImageBase (fwUpdateCtxt (staged ?p)))"
    by (simp add: sim_platform_def)
  from executeFirmwareUpdate_outcomes [where p = ?p and s = "staged ?p"] ty crc show ?thesis
    by (simp add: case_prod_beta Let_def staged_simps)
qed

text \<open>
  C1 as stated fails: with an image of unrecognized type the reference definition runs
  the post-command and reports success, the code reports a corrupt image.
\<close>

theorem execute_unrecognized_type_counterexample:
  "\<not> image_check_type (sim_platform False True 0) (mem (staged (sim_platform False True 0)))
       (fwImageBase (fwUpdateCtxt (staged (sim_platform False True 0)))) \<and>
   state (snd (executeFirmwareUpdate (sim_platform False True 0)
                 (staged (sim_platform False True 0)))) = UPDATE_CORRUPT_IMAGE \<and>
   fst (execute_reference (sim_platform False True 0) (staged (sim_platform False True 0))) =
     UPDATE_SUCCESS"
  by (simp add: staged_def sim_platform_def sys0_def power_on_def startFirmwareUpdate_def
      sendDataPacket_def executeFirmwareUpdate_def execute_reference_def doCrcCheck_def
      run_parse_string_outer_def emit_def m_size_def Let_def)

subsection \<open>Update session\<close>

text \<open>
  C2, amended. From power-on, after every sequence of \<open>start\<close> and \<open>acceptPacket\<close>
  calls: while a session is in progress, \<open>bytesReceived \<le> length\<close> and
  \<open>fwImagePtr - fwImageBase = bytesReceived\<close>.
\<close>

theorem in_progress_invariant_reachable:
  "in_progress_invariant (session_run p calls (power_on st r m e))"
  by (rule session_run_invariant) (simp add: in_progress_invariant_def power_on_def)

theorem in_progress_invariant_reachable_witness:
  "bUpdateInProgress (fwUpdateCtxt (session_run (sim_platform True True 0)
        [Start ''run commit'' 4, AcceptPacket [0xDE, 0xAD]] sys0)) \<and>
   session_invariant (session_run (sim_platform True True 0)
        [Start ''run commit'' 4, AcceptPacket [0xDE, 0xAD]] sys0)"
proof -
  have run: "bUpdateInProgress (fwUpdateCtxt (session_run (sim_platform True True 0)
        [Start ''run commit'' 4, AcceptPacket [0xDE, 0xAD]] sys0))"
    by (simp add: session_run_def sim_platform_def sys0_def power_on_def
        startFirmwareUpdate_def sendDataPacket_def emit_def m_size_def Let_def)
  from in_progress_invariant_reachable
      [of "sim_platform True True 0" "[Start ''run commit'' 4, AcceptPacket [0xDE, 0xAD]]"
        UPDATE_SUCCESS
        "\<lparr>statusCode_resp = e_EC_SUCCESS, length_resp = 0, payload_resp = No_payload\<rparr>"
        "\<lambda>_. 0" Map.empty] run
  show ?thesis by (simp add: in_progress_invariant_def sys0_def)
qed

text \<open>
  C2 as stated fails once a packet completes the session: after \<open>start\<close> with length 4
  and a packet of four bytes the cursor still stands at the base while four bytes are
  counted, and a packet of five bytes leaves more bytes counted than declared.
\<close>

theorem session_invariant_counterexample:
  "\<not> session_invariant (session_run (sim_platform True True 0)
        [Start ''run commit'' 4, AcceptPacket [0xDE, 0xAD, 0xBE, 0xEF]] sys0) \<and>
   \<not> bytesReceived (fwUpdateCtxt (session_run (sim_platform True True 0)
        [Start ''run commit'' 4, AcceptPacket [0xDE, 0xAD, 0xBE, 0xEF, 0x00]] sys0))
      \<le> length_fw (fwUpdateCtxt (session_run (sim_platform True True 0)
        [Start ''run commit'' 4, AcceptPacket [0xDE, 0xAD, 0xBE, 0xEF, 0x00]] sys0))"
  by (simp add: session_invariant_def session_run_def sim_platform_def sys0_def power_on_def
      startFirmwareUpdate_def sendDataPacket_def emit_def m_size_def Let_def)

text \<open>
  C5. \<^verbatim>\<open>startFirmwareUpdate\<close> always leaves the session in the same state: in progress,
  the declared length and the command stored, no byte received, base and cursor at the
  staging address. Whatever the previous session had received is gone. The result is
  \<open>e_EC_UPDATE_ALREADY_IN_PROGRESS\<close> exactly when a session was in progress at the call,
  and \<open>e_EC_SUCCESS\<close> otherwise. Nothing else changes but the console.
\<close>

theorem startFirmwareUpdate_resets:
  "(case startFirmwareUpdate p c len s of (rv, s') \<Rightarrow>
      fwUpdateCtxt s' =
        \<lparr>bUpdateInProgress = True, length_fw = len, bytesReceived = 0,
         fwImageBase = XPAR_DDR2_CONTROL_MPMC_BASEADDR p,
         fwImagePtr = XPAR_DDR2_CONTROL_MPMC_BASEADDR p, cmd = c\<rparr> \<and>
      (rv = e_EC_UPDATE_ALREADY_IN_PROGRESS) = bUpdateInProgress (fwUpdateCtxt s) \<and>
      (rv = e_EC_SUCCESS) = (\<not> bUpdateInProgress (fwUpdateCtxt s)) \<and>
      s' = s\<lparr>fwUpdateCtxt := fwUpdateCtxt s',
              trace := trace s @ [Printf (Msg_Got_startFirmwareUpdate c len)]\<rparr>)"
  by (simp add: startFirmwareUpdate_def emit_def Let_def)

text \<open>A second \<open>start\<close> while two of four bytes have arrived.\<close>

theorem startFirmwareUpdate_resets_witness:
  "bytesReceived (fwUpdateCtxt (halfway (sim_platform True True 0))) = 2 \<and>
   fst (startFirmwareUpdate (sim_platform True True 0) ''run other'' 8
          (halfway (sim_platform True True 0))) = e_EC_UPDATE_ALREADY_IN_PROGRESS \<and>
   fwUpdateCtxt (snd (startFirmwareUpdate (sim_platform True True 0) ''run other'' 8
          (halfway (sim_platform True True 0)))) =
     \<lparr>bUpdateInProgress = True, length_fw = 8, bytesReceived = 0,
      fwImageBase = 0x90000000, fwImagePtr = 0x90000000, cmd = ''run other''\<rparr>"
proof -
  let ?p = "sim_platform True True 0"
  have base: "XPAR_DDR2_CONTROL_MPMC_BASEADDR ?p = 0x90000000"
    by (simp add: sim_platform_def)
  from startFirmwareUpdate_resets [where p = ?p and c = "''run other''" and len = 8 and s = "halfway ?p"] base
  show ?thesis
    by (simp add: case_prod_beta halfway_simps)
qed

text \<open>
  C9. A data packet that arrives while no session is in progress is answered with
  \<open>e_EC_UPDATE_NOT_IN_PROGRESS\<close> and changes nothing: not the session, not the staging
  memory, not any flag. This is the case at power-on, and again once a packet has
  completed a session.
\<close>

theorem sendDataPacket_not_in_progress:
  "\<not> bUpdateInProgress (fwUpdateCtxt s) \<Longrightarrow>
     sendDataPacket d s = (e_EC_UPDATE_NOT_IN_PROGRESS, s)"
  by (simp add: sendDataPacket_def)

theorem sendDataPacket_not_in_progress_witness:
  "\<not> bUpdateInProgress (fwUpdateCtxt sys0) \<and>
   sendDataPacket [0xDE, 0xAD] sys0 = (e_EC_UPDATE_NOT_IN_PROGRESS, sys0) \<and>
   \<not> bUpdateInProgress (fwUpdateCtxt (staged (sim_platform True True 0))) \<and>
   sendDataPacket [0xDE, 0xAD] (staged (sim_platform True True 0)) =
     (e_EC_UPDATE_NOT_IN_PROGRESS, staged (sim_platform True True 0))"
proof -
  have h: "\<not> bUpdateInProgress (fwUpdateCtxt sys0)"
    by (simp add: sys0_def power_on_def)
  have k: "\<not> bUpdateInProgress (fwUpdateCtxt (staged (sim_platform True True 0)))"
    by (simp add: staged_simps)
  from sendDataPacket_not_in_progress [OF h, of "[0xDE, 0xAD]"]
    sendDataPacket_not_in_progress [OF k, of "[0xDE, 0xAD]"] h k
  show ?thesis by simp
qed

text \<open>
  C4, amended. The dispatcher, with no execution pending, serves a \<open>start\<close> request
  with declared length \<open>len\<close> and then at least one data packet, the sizes of the
  packets summing to exactly \<open>len\<close>. Then the session completes exactly once,
  \<^verbatim>\<open>executeFirmwareUpdate\<close> runs exactly once, the flag \<^verbatim>\<open>executeUpdate\<close> is clear again,
  no session is in progress, and every further packet is rejected with
  \<open>e_EC_UPDATE_NOT_IN_PROGRESS\<close> and changes nothing.
\<close>

theorem transfer_completes_once:
  assumes idle: "\<not> executeUpdate s" and ne: "pkts \<noteq> []"
    and total: "sum_list (map length pkts) = unat len"
  shows "(let s' = DoFirmwareUpdate_served p
                     (start_request c len # map packet_request pkts) s in
     completions s' = Suc (completions s) \<and>
     executions s' = Suc (executions s) \<and>
     \<not> executeUpdate s' \<and>
     \<not> bUpdateInProgress (fwUpdateCtxt s') \<and>
     (\<forall>d. sendDataPacket d s' = (e_EC_UPDATE_NOT_IN_PROGRESS, s')))"
proof -
  let ?s1 = "DoFirmwareUpdate_body p (start_request c len) s"
  note st = body_start [OF idle, of p c len]
  from st have i1: "bUpdateInProgress (fwUpdateCtxt ?s1)" and i2: "\<not> executeUpdate ?s1"
    by simp_all
  from st total have i4: "unat (bytesReceived (fwUpdateCtxt ?s1)) + sum_list (map length pkts)
        = unat (length_fw (fwUpdateCtxt ?s1))" by simp
  from served_packets [OF i1 i2 ne i4, of p] st show ?thesis
    by (simp add: DoFirmwareUpdate_served_def Let_def sendDataPacket_def)
qed

text \<open>Four bytes in two packets, from power-on.\<close>

theorem transfer_completes_once_witness:
  "\<not> executeUpdate sys0 \<and> [[0xDE, 0xAD], [0xBE, 0xEF :: uint8_t]] \<noteq> [] \<and>
   sum_list (map length [[0xDE, 0xAD], [0xBE, 0xEF :: uint8_t]]) = unat (4 :: uint32_t) \<and>
   completions (DoFirmwareUpdate_served (sim_platform True True 0)
       (start_request ''run commit'' 4 # map packet_request [[0xDE, 0xAD], [0xBE, 0xEF]]) sys0) = 1 \<and>
   executions (DoFirmwareUpdate_served (sim_platform True True 0)
       (start_request ''run commit'' 4 # map packet_request [[0xDE, 0xAD], [0xBE, 0xEF]]) sys0) = 1 \<and>
   \<not> executeUpdate (DoFirmwareUpdate_served (sim_platform True True 0)
       (start_request ''run commit'' 4 # map packet_request [[0xDE, 0xAD], [0xBE, 0xEF]]) sys0)"
proof -
  have idle: "\<not> executeUpdate sys0" by (simp add: sys0_def power_on_def)
  have ne: "[[0xDE, 0xAD], [0xBE, 0xEF :: uint8_t]] \<noteq> []" by simp
  have total: "sum_list (map length [[0xDE, 0xAD], [0xBE, 0xEF :: uint8_t]]) = unat (4 :: uint32_t)"
    by simp
  have zero: "completions sys0 = 0" "executions sys0 = 0"
    by (simp_all add: completions_def executions_def sys0_def power_on_def)
  from transfer_completes_once
      [OF idle ne total, where p = "sim_platform True True 0" and c = "''run commit''"]
    idle ne total zero
  show ?thesis by (simp add: Let_def)
qed

text \<open>
  C4 as stated fails for a transfer of length 0 with no packet: the sizes sum to the
  declared length, yet the session never completes, nothing is executed, and a further
  packet is accepted.
\<close>

theorem zero_length_no_packet_counterexample:
  "sum_list (map length ([] :: FirmwareUpdate__FwData list)) = unat (0 :: uint32_t) \<and>
   completions (DoFirmwareUpdate_served (sim_platform True True 0)
       (start_request ''run commit'' 0 # map packet_request []) sys0) = 0 \<and>
   executions (DoFirmwareUpdate_served (sim_platform True True 0)
       (start_request ''run commit'' 0 # map packet_request []) sys0) = 0 \<and>
   bUpdateInProgress (fwUpdateCtxt (DoFirmwareUpdate_served (sim_platform True True 0)
       (start_request ''run commit'' 0 # map packet_request []) sys0)) \<and>
   fst (sendDataPacket [0xDE] (DoFirmwareUpdate_served (sim_platform True True 0)
       (start_request ''run commit'' 0 # map packet_request []) sys0)) = e_EC_SUCCESS"
  by (simp add: DoFirmwareUpdate_served_def DoFirmwareUpdate_body_def DoFirmwareUpdate_request_def
      DoFirmwareUpdate_execute_def FirmwareUpdate__unmarshal_def invoke_def start_request_def
      startFirmwareUpdate_def sendDataPacket_def completions_def executions_def
      sim_platform_def sys0_def power_on_def emit_def m_size_def Let_def)

subsection \<open>Event latch\<close>

text \<open>
  C6. The latch is the one flag \<^verbatim>\<open>eventValid\<close>. A poll returns success and either the
  pending event (the firmware-update event code with the current execution state as its
  one byte of data) or the null event code; after any poll nothing is pending, and
  every further poll returns the null event code and changes nothing. Arming sets the
  flag, and arming over an event that was not consumed gives the same state as arming
  an empty latch: nothing is queued.
\<close>

theorem event_latch_single_slot:
  "(case get_nextQueuedEvent e s of (r1, e1, s1) \<Rightarrow>
      r1 = e_EC_SUCCESS \<and>
      e1 = (if eventValid s
            then e\<lparr>eventCode := FIRMWARE_UPDATE_EVENT, data_m_data0 := state s,
                   data_m_size := 1\<rparr>
            else e\<lparr>eventCode := NULL_EVENT\<rparr>) \<and>
      \<not> eventValid s1 \<and>
      (\<forall>e'. get_nextQueuedEvent e' s1 = (e_EC_SUCCESS, e'\<lparr>eventCode := NULL_EVENT\<rparr>, s1))) \<and>
   eventValid (DoFirmwareUpdate_execute p (s\<lparr>executeUpdate := True, queueEnabled := True\<rparr>)) \<and>
   DoFirmwareUpdate_execute p
       (s\<lparr>executeUpdate := True, queueEnabled := True, eventValid := True\<rparr>) =
     DoFirmwareUpdate_execute p
       (s\<lparr>executeUpdate := True, queueEnabled := True, eventValid := False\<rparr>)"
proof -
  have poll: "(case get_nextQueuedEvent e s of (r1, e1, s1) \<Rightarrow>
      r1 = e_EC_SUCCESS \<and>
      e1 = (if eventValid s
            then e\<lparr>eventCode := FIRMWARE_UPDATE_EVENT, data_m_data0 := state s,
                   data_m_size := 1\<rparr>
            else e\<lparr>eventCode := NULL_EVENT\<rparr>) \<and>
      \<not> eventValid s1 \<and>
      (\<forall>e'. get_nextQueuedEvent e' s1 = (e_EC_SUCCESS, e'\<lparr>eventCode := NULL_EVENT\<rparr>, s1)))"
    by (simp add: get_nextQueuedEvent_def emit_def Let_def)
  have arm: "eventValid (DoFirmwareUpdate_execute p (s\<lparr>executeUpdate := True, queueEnabled := True\<rparr>))"
    using executeFirmwareUpdate_queueEnabled
        [where p = p and s = "s\<lparr>executeUpdate := True, queueEnabled := True\<rparr>"]
    by (simp add: DoFirmwareUpdate_execute_def emit_def case_prod_beta Let_def)
  have over: "DoFirmwareUpdate_execute p
       (s\<lparr>executeUpdate := True, queueEnabled := True, eventValid := True\<rparr>) =
     DoFirmwareUpdate_execute p
       (s\<lparr>executeUpdate := True, queueEnabled := True, eventValid := False\<rparr>)"
    using executeFirmwareUpdate_queueEnabled
        [where p = p and s = "s\<lparr>executeUpdate := True, queueEnabled := True\<rparr>"]
      executeFirmwareUpdate_eventValid
        [where p = p and s = "s\<lparr>executeUpdate := True, queueEnabled := True\<rparr>" and v = True]
      executeFirmwareUpdate_eventValid
        [where p = p and s = "s\<lparr>executeUpdate := True, queueEnabled := True\<rparr>" and v = False]
    by (simp add: DoFirmwareUpdate_execute_def emit_def case_prod_beta Let_def)
  from poll arm over show ?thesis by simp
qed

text \<open>
  The scenario of the specification: the staged transfer is executed with the queue
  enabled and the checksum failing; the first poll returns the firmware-update event
  with \<open>UPDATE_CORRUPT_IMAGE\<close>, the second the null event.
\<close>

theorem event_latch_single_slot_witness:
  "(case get_nextQueuedEvent (event_scratch (sim_platform True False 0))
           (DoFirmwareUpdate_execute (sim_platform True False 0)
              ((staged (sim_platform True False 0))\<lparr>queueEnabled := True\<rparr>))
    of (r1, e1, s1) \<Rightarrow>
      eventCode e1 = FIRMWARE_UPDATE_EVENT \<and> data_m_data0 e1 = UPDATE_CORRUPT_IMAGE \<and>
      data_m_size e1 = 1 \<and>
      eventCode (fst (snd (get_nextQueuedEvent (event_scratch (sim_platform True False 0)) s1)))
        = NULL_EVENT)"
proof -
  let ?p = "sim_platform True False 0"
  let ?a = "DoFirmwareUpdate_execute ?p ((staged ?p)\<lparr>queueEnabled := True\<rparr>)"
  have armed: "eventValid ?a" "state ?a = UPDATE_CORRUPT_IMAGE"
    by (simp_all add: DoFirmwareUpdate_execute_def executeFirmwareUpdate_def doCrcCheck_def
        staged_simps sim_platform_def emit_def setenv_def Let_def)
  from event_latch_single_slot [where e = "event_scratch ?p" and s = ?a and p = ?p] armed
  show ?thesis
    by (simp add: case_prod_beta)
qed

text \<open>
  C10. The event code passed to \<^verbatim>\<open>set_eventQueueEnabled\<close> and \<^verbatim>\<open>get_eventQueueEnabled\<close>
  has no influence on the result or on the state: for two event codes and the same
  value, setting returns the same error code and leaves the same state (the console
  line alone names the code), the one flag \<^verbatim>\<open>queueEnabled\<close> holds the value, and
  getting returns that value for every event code.
\<close>

theorem eventCode_ignored:
  "fst (set_eventQueueEnabled c1 en s) = fst (set_eventQueueEnabled c2 en s) \<and>
   (snd (set_eventQueueEnabled c1 en s))\<lparr>trace := t\<rparr> =
     (snd (set_eventQueueEnabled c2 en s))\<lparr>trace := t\<rparr> \<and>
   queueEnabled (snd (set_eventQueueEnabled c1 en s)) = en \<and>
   get_eventQueueEnabled c1 s = get_eventQueueEnabled c2 s \<and>
   get_eventQueueEnabled c1 (snd (set_eventQueueEnabled c2 en s)) = (e_EC_SUCCESS, en)"
  by (simp add: set_eventQueueEnabled_def get_eventQueueEnabled_def emit_def Let_def)

theorem eventCode_ignored_witness:
  "get_eventQueueEnabled NULL_EVENT
     (snd (set_eventQueueEnabled FIRMWARE_UPDATE_EVENT True sys0)) = (e_EC_SUCCESS, True) \<and>
   get_eventQueueEnabled 0x1234 sys0 = get_eventQueueEnabled FIRMWARE_UPDATE_EVENT sys0"
  using eventCode_ignored [where ?c1.0 = NULL_EVENT and ?c2.0 = FIRMWARE_UPDATE_EVENT and en = True
        and s = sys0 and t = "[]"]
    eventCode_ignored [where ?c1.0 = "0x1234" and ?c2.0 = FIRMWARE_UPDATE_EVENT and en = True
        and s = sys0 and t = "[]"]
  by simp

subsection \<open>Request dispatcher\<close>

text \<open>
  C8. At the moment a transfer has completed (\<^verbatim>\<open>executeUpdate\<close> set), the dispatcher runs
  \<^verbatim>\<open>executeFirmwareUpdate\<close> and clears the flag whether the event queue is enabled or
  not. With the queue disabled the state afterwards is exactly that; with the queue
  enabled the latch is armed and the notification raised in addition, and nothing else
  differs. The execution itself neither arms the latch nor raises the notification.
\<close>

theorem queueEnabled_only_gates_notification:
  "executeUpdate s \<Longrightarrow>
     (case executeFirmwareUpdate p s of (r, s') \<Rightarrow>
        DoFirmwareUpdate_execute p (s\<lparr>queueEnabled := False\<rparr>) =
          s'\<lparr>executeUpdate := False, queueEnabled := False\<rparr> \<and>
        DoFirmwareUpdate_execute p (s\<lparr>queueEnabled := True\<rparr>) =
          s'\<lparr>executeUpdate := False, queueEnabled := True, eventValid := True,
             trace := trace s' @ [TrigAsyncLabXMailbox]\<rparr> \<and>
        eventValid s' = eventValid s \<and>
        TrigAsyncLabXMailbox \<notin> set (drop (length (trace s)) (trace s')))"
  by (auto simp add: DoFirmwareUpdate_execute_def executeFirmwareUpdate_def doCrcCheck_def
      run_parse_string_outer_def emit_def setenv_def Let_def split: prod.splits)

theorem queueEnabled_only_gates_notification_witness:
  "executeUpdate (staged (sim_platform True True 0)) \<and>
   executions (DoFirmwareUpdate_execute (sim_platform True True 0)
      ((staged (sim_platform True True 0))\<lparr>queueEnabled := False\<rparr>)) = 1 \<and>
   \<not> eventValid (DoFirmwareUpdate_execute (sim_platform True True 0)
      ((staged (sim_platform True True 0))\<lparr>queueEnabled := False\<rparr>)) \<and>
   TrigAsyncLabXMailbox \<notin> set (trace (DoFirmwareUpdate_execute (sim_platform True True 0)
      ((staged (sim_platform True True 0))\<lparr>queueEnabled := False\<rparr>))) \<and>
   executions (DoFirmwareUpdate_execute (sim_platform True True 0)
      ((staged (sim_platform True True 0))\<lparr>queueEnabled := True\<rparr>)) = 1 \<and>
   eventValid (DoFirmwareUpdate_execute (sim_platform True True 0)
      ((staged (sim_platform True True 0))\<lparr>queueEnabled := True\<rparr>)) \<and>
   last (trace (DoFirmwareUpdate_execute (sim_platform True True 0)
      ((staged (sim_platform True True 0))\<lparr>queueEnabled := True\<rparr>))) = TrigAsyncLabXMailbox"
proof -
  let ?p = "sim_platform True True 0"
  have pend: "executeUpdate (staged ?p)" by (simp add: staged_simps)
  have ex: "executeFirmwareUpdate ?p (staged ?p) =
      (0, (staged ?p)\<lparr>state := UPDATE_SUCCESS, env := [''crcreturn'' \<mapsto> ''0''],
            trace := trace (staged ?p) @
              [Enter_executeFirmwareUpdate, Printf Msg_Verifying_Checksum, Printf Msg_OK,
               Parse_string_outer ''run commit'']\<rparr>)"
    by (simp add: executeFirmwareUpdate_def doCrcCheck_def run_parse_string_outer_def
        staged_simps sim_platform_def emit_def setenv_def Let_def)
  from queueEnabled_only_gates_notification [OF pend, where p = ?p] pend ex show ?thesis
    by (simp add: executions_def staged_simps)
qed

text \<open>
  C3, amended. For every request whose class code is not \<^verbatim>\<open>k_CC_AvbSystem\<close>, the
  processing in the boot polling window and in the main loop of the dispatcher are the
  same function: same response, same state, same write to the mailbox. A request of
  class \<^verbatim>\<open>k_CC_AvbSystem\<close> is unmarshalled in the main loop, but in the polling window
  it is answered with the invalid-service-code response of length payload offset, and
  no operation is invoked.
\<close>

theorem boot_window_request_vs_dispatcher:
  "(classCode_req req \<noteq> k_CC_AvbSystem \<longrightarrow>
      CheckFirmwareUpdate_request p req s = DoFirmwareUpdate_request p req s) \<and>
   (classCode_req req = k_CC_AvbSystem \<longrightarrow>
      DoFirmwareUpdate_request p req s =
        (let s1 = FirmwareUpdate__unmarshal p req s
         in emit (WriteLabXMailbox (response s1) (length_resp (response s1))) s1) \<and>
      CheckFirmwareUpdate_request p req s =
        (let r = (response s)\<lparr>statusCode_resp := e_EC_INVALID_SERVICE_CODE,
                                length_resp := getPayloadOffset_resp p\<rparr>
         in emit (WriteLabXMailbox r (getPayloadOffset_resp p)) (s\<lparr>response := r\<rparr>)))"
  by (cases "classCode_req req")
     (simp_all add: CheckFirmwareUpdate_request_def DoFirmwareUpdate_request_def Let_def)

theorem boot_window_request_vs_dispatcher_witness:
  "classCode_req remain_request \<noteq> k_CC_AvbSystem \<and>
   CheckFirmwareUpdate_request (sim_platform True True 0) remain_request sys0 =
     DoFirmwareUpdate_request (sim_platform True True 0) remain_request sys0 \<and>
   classCode_req avb_request = k_CC_AvbSystem \<and>
   statusCode_resp (response (CheckFirmwareUpdate_request (sim_platform True True 0)
                                avb_request sys0)) = e_EC_INVALID_SERVICE_CODE"
proof -
  have a: "classCode_req remain_request \<noteq> k_CC_AvbSystem" by (simp add: remain_request_def)
  have b: "classCode_req avb_request = k_CC_AvbSystem" by (simp add: avb_request_def)
  from boot_window_request_vs_dispatcher
      [where req = remain_request and p = "sim_platform True True 0" and s = sys0]
    boot_window_request_vs_dispatcher
      [where req = avb_request and p = "sim_platform True True 0" and s = sys0] a b
  show ?thesis by (simp add: emit_def Let_def)
qed

text \<open>
  C3 as stated fails for a request of class \<^verbatim>\<open>k_CC_AvbSystem\<close>: the main loop answers
  the query of the executing image type with success, the polling window answers the
  same request with the invalid-service-code response.
\<close>

theorem boot_window_AvbSystem_counterexample:
  "response (DoFirmwareUpdate_request (sim_platform True True 0) avb_request sys0) =
     \<lparr>statusCode_resp = e_EC_SUCCESS, length_resp = 12,
      payload_resp = Image_payload e_CODE_IMAGE_BOOT\<rparr> \<and>
   response (CheckFirmwareUpdate_request (sim_platform True True 0) avb_request sys0) =
     \<lparr>statusCode_resp = e_EC_INVALID_SERVICE_CODE, length_resp = 8, payload_resp = No_payload\<rparr>"
  by (simp add: avb_request_def sim_platform_def sys0_def power_on_def
      CheckFirmwareUpdate_request_def DoFirmwareUpdate_request_def FirmwareUpdate__unmarshal_def
      invoke_def get_ExecutingImageType_def emit_def Let_def)

subsection \<open>Boot decision sequencer\<close>

text \<open>
  C7. A remain-in-bootloader request counts as observed when it is among the requests
  received in the polling window or the flag \<^verbatim>\<open>firmwareUpdate\<close> was set before (at
  power-on it is clear); likewise a boot-delay request and \<^verbatim>\<open>bootDelay\<close>. After the
  window \<^verbatim>\<open>CheckFirmwareUpdate\<close> never returns exactly when the word read from the
  configuration port is the magic value or a remain-in-bootloader request was observed.
  In that case it is in update mode: the dispatcher loop serves every request the host
  sends, one after the other, and the function then stays forever in the blocking read
  or, after a read that returned 0, in the wait for reset. Otherwise it returns 1 if a
  boot-delay request was observed, and 0 if none of these conditions held.
\<close>

theorem CheckFirmwareUpdate_decision:
  "(let s1 = CheckFirmwareUpdate_probe s;
        s2 = CheckFirmwareUpdate_poll p 4 polls s1;
        seen = CheckFirmwareUpdate_received p 4 polls s1;
        remain = (firmwareUpdate s \<or> remain_request \<in> set seen);
        delay = (bootDelay s \<or> delay_request \<in> set seen);
        update = (readValue = GENERAL5_MAGIC \<or> remain);
        s3 = emit (Printf Msg_Entering_firmware_update)
               (emit (Printf (if readValue = GENERAL5_MAGIC then Msg_Reconfiguration_failed
                              else Msg_Update_Requested)) s2)
    in
      (fst (CheckFirmwareUpdate p readValue polls reads s) = None) = update \<and>
      (update \<longrightarrow>
         CheckFirmwareUpdate p readValue polls (map Some reqs) s =
           (None, DoFirmwareUpdate_served p reqs s3) \<and>
         CheckFirmwareUpdate p readValue polls (map Some reqs @ None # rest) s =
           (None, emit (Printf Msg_Firmware_update_completed)
                    (DoFirmwareUpdate_served p reqs s3))) \<and>
      (\<not> update \<longrightarrow>
         CheckFirmwareUpdate p readValue polls reads s =
           (Some (if delay then 1 else 0),
            emit (Printf (if delay then Msg_Boot_Delay_Requested
                          else Msg_No_update_requested)) s2)))"
proof -
  let ?s1 = "CheckFirmwareUpdate_probe s"
  let ?s2 = "CheckFirmwareUpdate_poll p 4 polls ?s1"
  let ?seen = "CheckFirmwareUpdate_received p 4 polls ?s1"
  have fu: "firmwareUpdate ?s2 = (firmwareUpdate s \<or> remain_request \<in> set ?seen)"
    and bd: "bootDelay ?s2 = (bootDelay s \<or> delay_request \<in> set ?seen)"
    using CheckFirmwareUpdate_poll_flags [of p 4 polls ?s1] CheckFirmwareUpdate_probe_flags [of s]
    by simp_all
  have never: "(fst (CheckFirmwareUpdate p readValue polls reads s) = None) =
      (readValue = GENERAL5_MAGIC \<or> firmwareUpdate ?s2)"
    by (simp add: CheckFirmwareUpdate_def Let_def wait_for_reset_None
        split: option.splits prod.splits)
  have blocked: "readValue = GENERAL5_MAGIC \<or> firmwareUpdate ?s2 \<Longrightarrow>
      CheckFirmwareUpdate p readValue polls (map Some reqs) s =
        (None, DoFirmwareUpdate_served p reqs
           (emit (Printf Msg_Entering_firmware_update)
              (emit (Printf (if readValue = GENERAL5_MAGIC then Msg_Reconfiguration_failed
                             else Msg_Update_Requested)) ?s2)))"
    by (auto simp add: CheckFirmwareUpdate_def Let_def DoFirmwareUpdate_blocks)
  have halted: "readValue = GENERAL5_MAGIC \<or> firmwareUpdate ?s2 \<Longrightarrow>
      CheckFirmwareUpdate p readValue polls (map Some reqs @ None # rest) s =
        (None, emit (Printf Msg_Firmware_update_completed)
           (DoFirmwareUpdate_served p reqs
             (emit (Printf Msg_Entering_firmware_update)
                (emit (Printf (if readValue = GENERAL5_MAGIC then Msg_Reconfiguration_failed
                               else Msg_Update_Requested)) ?s2))))"
    by (auto simp add: CheckFirmwareUpdate_def Let_def DoFirmwareUpdate_exits
        wait_for_reset_None)
  have returns: "\<not> (readValue = GENERAL5_MAGIC \<or> firmwareUpdate ?s2) \<Longrightarrow>
      CheckFirmwareUpdate p readValue polls reads s =
        (Some (if bootDelay ?s2 then 1 else 0),
         emit (Printf (if bootDelay ?s2 then Msg_Boot_Delay_Requested
                       else Msg_No_update_requested)) ?s2)"
    by (simp add: CheckFirmwareUpdate_def Let_def)
  from never blocked halted returns show ?thesis
    unfolding Let_def fu bd by blast
qed

text \<open>
  From power-on, with the magic value absent. No request in four polls: the function
  returns 0. A boot-delay request at the second poll: it returns 1. A
  remain-in-bootloader request at the first poll: it never returns, whatever else is
  polled, and the dispatcher serves the transfer that the host then sends and executes
  it. With the magic value and no request it never returns either.
\<close>

theorem CheckFirmwareUpdate_decision_witness:
  "fst (CheckFirmwareUpdate (sim_platform True True 0) 0 [] [] sys0) = Some 0 \<and>
   fst (CheckFirmwareUpdate (sim_platform True True 0) 0 [None, Some delay_request] [] sys0)
     = Some 1 \<and>
   fst (CheckFirmwareUpdate (sim_platform True True 0) 0 [Some remain_request, None]
          (map Some [start_request ''run commit'' 4, packet_request [0xDE, 0xAD, 0xBE, 0xEF]])
          sys0) = None \<and>
   0 < executions (snd (CheckFirmwareUpdate (sim_platform True True 0) 0
          [Some remain_request, None]
          (map Some [start_request ''run commit'' 4, packet_request [0xDE, 0xAD, 0xBE, 0xEF]])
          sys0)) \<and>
   fst (CheckFirmwareUpdate (sim_platform True True 0) GENERAL5_MAGIC [] [None] sys0) = None"
proof -
  let ?p = "sim_platform True True 0"
  let ?s1 = "CheckFirmwareUpdate_probe sys0"
  let ?reqs = "[start_request ''run commit'' 4, packet_request [0xDE, 0xAD, 0xBE, 0xEF]]"
  have four: "(4 :: nat) = Suc (Suc (Suc (Suc 0)))" by simp
  have clear: "\<not> firmwareUpdate sys0" "\<not> bootDelay sys0"
    by (simp_all add: sys0_def power_on_def)
  have differ: "remain_request \<noteq> delay_request"
    by (simp add: remain_request_def delay_request_def)
  have magic: "(0 :: u16) \<noteq> GENERAL5_MAGIC" by (simp add: GENERAL5_MAGIC_def)
  have quiet: "CheckFirmwareUpdate_received ?p 4 [] ?s1 = []"
    by (simp add: four)
  have delayed: "CheckFirmwareUpdate_received ?p 4 [None, Some delay_request] ?s1 =
      [delay_request]"
    by (simp add: four CheckFirmwareUpdate_request_def FirmwareUpdate__unmarshal_def invoke_def
        requestBootDelay_def delay_request_def emit_def Let_def)
  have remains: "CheckFirmwareUpdate_received ?p 4 [Some remain_request, None] ?s1 =
      [remain_request]"
    by (simp add: four CheckFirmwareUpdate_request_def FirmwareUpdate__unmarshal_def invoke_def
        remainInBootloader_def remain_request_def emit_def Let_def)
  let ?s2 = "CheckFirmwareUpdate_poll ?p 4 [Some remain_request, None] ?s1"
  let ?s3 = "emit (Printf Msg_Entering_firmware_update) (emit (Printf Msg_Update_Requested) ?s2)"
  have idle: "\<not> executeUpdate ?s3"
    by (simp add: four CheckFirmwareUpdate_probe_def CheckFirmwareUpdate_request_def
        FirmwareUpdate__unmarshal_def invoke_def remainInBootloader_def remain_request_def
        emit_def sys0_def power_on_def Let_def)
  let ?s4 = "DoFirmwareUpdate_body ?p (start_request ''run commit'' 4) ?s3"
  note st = body_start [OF idle, of ?p "''run commit''" 4]
  from st have i1: "bUpdateInProgress (fwUpdateCtxt ?s4)" and i2: "\<not> executeUpdate ?s4"
    by simp_all
  from st have i4: "unat (bytesReceived (fwUpdateCtxt ?s4)) +
      sum_list (map length [[0xDE, 0xAD, 0xBE, 0xEF :: uint8_t]]) = unat (length_fw (fwUpdateCtxt ?s4))"
    by simp
  from served_packets [OF i1 i2 _ i4, of ?p]
  have run: "0 < executions (DoFirmwareUpdate_served ?p ?reqs ?s3)"
    by (simp add: DoFirmwareUpdate_served_def)
  from CheckFirmwareUpdate_decision
      [where p = ?p and polls = "[]" and s = sys0 and readValue = 0 and reads = "[]"
        and reqs = "[]" and rest = "[]"]
    CheckFirmwareUpdate_decision
      [where p = ?p and polls = "[None, Some delay_request]" and s = sys0 and readValue = 0
        and reads = "[]" and reqs = "[]" and rest = "[]"]
    CheckFirmwareUpdate_decision
      [where p = ?p and polls = "[Some remain_request, None]" and s = sys0 and readValue = 0
        and reads = "map Some ?reqs" and reqs = ?reqs and rest = "[]"]
    CheckFirmwareUpdate_decision
      [where p = ?p and polls = "[]" and s = sys0 and readValue = GENERAL5_MAGIC
        and reads = "[None]" and reqs = "[]" and rest = "[]"]
    clear differ magic quiet delayed remains run
  show ?thesis by (simp add: Let_def)
qed

end
